theory Spec2Isabelle
  imports Main "HOL-Library.Word"
begin

section \<open>Strings and JavaScript values\<close>

text \<open>
  A JavaScript string is modelled as a \<^typ>\<open>string\<close>: a list of 8-bit code units
  (Latin-1). Code units above \<open>0xFF\<close> are outside the model; every character class used
  by the source (\<open>\\d\<close>, the token table, the header-value class) is decided on the code
  of the character, \<^term>\<open>of_char c :: nat\<close>.
\<close>

definition code :: "char \<Rightarrow> nat" where
  "code c = of_char c"

definition isDigit :: "char \<Rightarrow> bool" where
  \<comment> \<open>the regular-expression class \<open>\\d\<close>\<close>
  "isDigit c = (48 \<le> code c \<and> code c \<le> 57)"

definition digitValue :: "char \<Rightarrow> nat" where
  "digitValue c = code c - 48"

definition decimalValue :: "string \<Rightarrow> nat" where
  \<comment> \<open>the mathematical value of a string of decimal digits\<close>
  "decimalValue ds = foldl (\<lambda>a c. 10 * a + digitValue c) 0 ds"

fun stripPrefix :: "string \<Rightarrow> string \<Rightarrow> string option" where
  "stripPrefix [] s = Some s"
| "stripPrefix (p # ps) [] = None"
| "stripPrefix (p # ps) (c # cs) = (if p = c then stripPrefix ps cs else None)"

section \<open>Grammar predicates (lib/core/util.js)\<close>

definition isTokenCharCode :: "nat \<Rightarrow> bool" where
  "isTokenCharCode c = (\<not> (
     c = 0x22 \<or> (c \<ge> 0x28 \<and> c \<le> 0x29) \<or>
     (c \<ge> 0x2c \<and> c \<le> 0x2f) \<or> (c \<ge> 0x3a \<and> c \<le> 0x3e) \<or>
     (c \<ge> 0x40 \<and> c \<le> 0x5d) \<or> (c \<ge> 0x7b \<and> c \<le> 0x7d) \<or>
     (c < 0x21 \<or> c > 0x7e)))"

definition isValidHTTPToken :: "string \<Rightarrow> bool" where
  "isValidHTTPToken str = (length str > 0 \<and> list_all (\<lambda>c. isTokenCharCode (code c)) str)"

definition headerValueChar :: "char \<Rightarrow> bool" where
  \<comment> \<open>the class \<open>[\\t\\x20-\\x7e\\x80-\\xff]\<close>\<close>
  "headerValueChar c =
     (code c = 9 \<or> (0x20 \<le> code c \<and> code c \<le> 0x7e) \<or> (0x80 \<le> code c \<and> code c \<le> 0xff))"

definition isValidHeaderValue :: "string \<Rightarrow> bool" where
  \<comment> \<open>\<open>!/[^\\t\\x20-\\x7e\\x80-\\xff]/.test(str)\<close>: no character outside the class\<close>
  "isValidHeaderValue str = list_all headerValueChar str"

section \<open>Numbers and parseInt\<close>

text \<open>
  The results of \<open>parseInt\<close>: \<open>NaN\<close>, a finite number (always an integer) or an
  infinity. \<open>parseInt(s, 10)\<close> skips leading white space, reads a sign and the longest
  run of decimal digits, and gives the double nearest to their value, ties going to the
  even mantissa: the value itself below \<open>2^53\<close>, a multiple of a power of two above,
  and \<open>Infinity\<close> from \<open>2^1024 - 2^970\<close> on. (\<open>-0\<close> is \<open>Finite 0\<close>.)
\<close>

datatype number = NaN | Finite int | PosInfinity | NegInfinity

fun bitLength :: "nat \<Rightarrow> nat" where
  "bitLength n = (if n = 0 then 0 else Suc (bitLength (n div 2)))"

declare bitLength.simps [simp del]

definition roundHalfEven :: "nat \<Rightarrow> nat \<Rightarrow> nat" where
  \<comment> \<open>\<open>n / 2^e\<close> rounded to the nearest integer, a tie to the even one\<close>
  "roundHalfEven n e =
     (if 2 * (n mod 2 ^ e) > 2 ^ e \<or> (2 * (n mod 2 ^ e) = 2 ^ e \<and> odd (n div 2 ^ e))
      then n div 2 ^ e + 1 else n div 2 ^ e)"

definition doubleLimit :: nat where
  "doubleLimit = 2 ^ 1024"

definition toDouble :: "nat \<Rightarrow> nat option" where
  \<comment> \<open>the double nearest to a natural number, with a mantissa of 53 bits; \<open>None\<close> is
      \<open>Infinity\<close>\<close>
  "toDouble n =
     (if n < 2 ^ 53 then Some n
      else (let e = bitLength n - 53; v = roundHalfEven n e * 2 ^ e
            in if v \<ge> doubleLimit then None else Some v))"

definition isWhiteSpace :: "char \<Rightarrow> bool" where
  \<comment> \<open>the white space and line terminators \<open>parseInt\<close> skips, among the Latin-1 code units\<close>
  "isWhiteSpace c = (code c \<in> {9, 10, 11, 12, 13, 32, 160})"

definition parseInt10 :: "string \<Rightarrow> number" where
  "parseInt10 s =
     (let t = dropWhile isWhiteSpace s;
          neg = (t \<noteq> [] \<and> hd t = CHR ''-'');
          u = (if t \<noteq> [] \<and> (hd t = CHR ''-'' \<or> hd t = CHR ''+'') then tl t else t);
          ds = takeWhile isDigit u
      in if ds = [] then NaN
         else (case toDouble (decimalValue ds) of
                 None \<Rightarrow> if neg then NegInfinity else PosInfinity
               | Some v \<Rightarrow> Finite (if neg then - int v else int v)))"

section \<open>Range header (lib/core/util.js, parseRangeHeader)\<close>

record range =
  range_start :: number
  range_end :: "number option"
  range_size :: "number option"

text \<open>
  The match of \<open>/^bytes=(\\d+)-(\\d+)\\/(\\d+)?$/\<close>: the three capture groups, the
  third being \<open>None\<close> when the optional group did not take part. Each \<open>\\d+\<close> is
  followed by a character that is not a digit (or by the end), so the greedy match is the
  longest run of digits.
\<close>

definition rangeMatch :: "string \<Rightarrow> (string \<times> string \<times> string option) option" where
  "rangeMatch s =
     (case stripPrefix ''bytes='' s of
        None \<Rightarrow> None
      | Some r1 \<Rightarrow>
          (let g1 = takeWhile isDigit r1; r2 = dropWhile isDigit r1 in
           if g1 = [] then None
           else (case stripPrefix ''-'' r2 of
             None \<Rightarrow> None
           | Some r3 \<Rightarrow>
               (let g2 = takeWhile isDigit r3; r4 = dropWhile isDigit r3 in
                if g2 = [] then None
                else (case stripPrefix ''/'' r4 of
                  None \<Rightarrow> None
                | Some r5 \<Rightarrow>
                    (let g3 = takeWhile isDigit r5; r6 = dropWhile isDigit r5 in
                     if r6 \<noteq> [] then None
                     else Some (g1, g2, if g3 = [] then None else Some g3)))))))"

text \<open>
  The argument is \<open>None\<close> for an absent header (\<open>undefined\<close> or \<open>null\<close>); the
  result \<open>None\<close> is the source's \<open>null\<close>, the parse failure. A field that is
  \<open>null\<close> is \<open>None\<close>. A matched group is a non-empty string, hence truthy.
\<close>

definition parseRangeHeader :: "string option \<Rightarrow> range option" where
  "parseRangeHeader rng =
     (case rng of
        None \<Rightarrow> Some \<lparr>range_start = Finite 0, range_end = None, range_size = None\<rparr>
      | Some s \<Rightarrow>
          if s = [] then Some \<lparr>range_start = Finite 0, range_end = None, range_size = None\<rparr>
          else (case rangeMatch s of
            None \<Rightarrow> None
          | Some (g1, g2, g3) \<Rightarrow>
              Some \<lparr>range_start = parseInt10 g1,
                    range_end = (if g2 \<noteq> [] then Some (parseInt10 g2) else None),
                    range_size = (case g3 of None \<Rightarrow> None | Some g \<Rightarrow> Some (parseInt10 g))\<rparr>))"

section \<open>JavaScript values\<close>

text \<open>
  The values a caller can pass in the options: \<open>undefined\<close>, \<open>null\<close>, booleans,
  numbers, strings, arrays and plain objects (as the list of their own enumerable entries,
  in \<open>Object.entries\<close> order). A number is a safe integer: a sign (\<open>True\<close> for
  negative) and a magnitude below \<open>2^53\<close>, so that its conversion to a string is its
  decimal digits. Other numbers, functions and other exotic objects are not represented.
\<close>

datatype jsval =
    Undefined
  | Null
  | Bool bool
  | Num bool "53 word"
  | Str string
  | Arr "jsval list"
  | Obj "(string \<times> jsval) list"

definition typeof :: "jsval \<Rightarrow> string" where
  "typeof v = (case v of
      Undefined \<Rightarrow> ''undefined''
    | Null \<Rightarrow> ''object''
    | Bool _ \<Rightarrow> ''boolean''
    | Num _ _ \<Rightarrow> ''number''
    | Str _ \<Rightarrow> ''string''
    | Arr _ \<Rightarrow> ''object''
    | Obj _ \<Rightarrow> ''object'')"

definition truthy :: "jsval \<Rightarrow> bool" where
  "truthy v = (case v of
      Undefined \<Rightarrow> False
    | Null \<Rightarrow> False
    | Bool b \<Rightarrow> b
    | Num _ n \<Rightarrow> n \<noteq> 0
    | Str s \<Rightarrow> s \<noteq> []
    | Arr _ \<Rightarrow> True
    | Obj _ \<Rightarrow> True)"

definition nullish :: "jsval \<Rightarrow> bool" where
  \<comment> \<open>\<open>v == null\<close>\<close>
  "nullish v = (v = Undefined \<or> v = Null)"

definition nullishOr :: "jsval \<Rightarrow> jsval \<Rightarrow> jsval" where
  \<comment> \<open>\<open>a ?? b\<close>\<close>
  "nullishOr a b = (if nullish a then b else a)"

fun natDigits :: "nat \<Rightarrow> string" where
  "natDigits n =
     (if n < 10 then [char_of (48 + n)]
      else natDigits (n div 10) @ [char_of (48 + n mod 10)])"

declare natDigits.simps [simp del]

definition numberToString :: "bool \<Rightarrow> 53 word \<Rightarrow> string" where
  "numberToString neg n = (if neg \<and> n \<noteq> 0 then CHR ''-'' # natDigits (unat n) else natDigits (unat n))"

fun joinWith :: "string \<Rightarrow> string list \<Rightarrow> string" where
  "joinWith sep [] = []"
| "joinWith sep [x] = x"
| "joinWith sep (x # y # ys) = x @ sep @ joinWith sep (y # ys)"

text \<open>
  \<open>toString\<close> is the conversion of a template literal \<open>`${v}`\<close>. An array joins its
  elements with a comma, \<open>undefined\<close> and \<open>null\<close> elements giving the empty string.
\<close>

fun toString :: "jsval \<Rightarrow> string" where
  "toString Undefined = ''undefined''"
| "toString Null = ''null''"
| "toString (Bool b) = (if b then ''true'' else ''false'')"
| "toString (Num neg n) = numberToString neg n"
| "toString (Str s) = s"
| "toString (Arr xs) =
     joinWith '','' (map (\<lambda>x. if x = Undefined \<or> x = Null then [] else toString x) xs)"
| "toString (Obj _) = ''[object Object]''"

definition toLowerChar :: "char \<Rightarrow> char" where
  \<comment> \<open>\<open>toLowerCase\<close> on a Latin-1 code unit: A-Z, and \<open>0xC0-0xDE\<close> except \<open>0xD7\<close>\<close>
  "toLowerChar c =
     (if (65 \<le> code c \<and> code c \<le> 90) \<or> (192 \<le> code c \<and> code c \<le> 222 \<and> code c \<noteq> 215)
      then char_of (code c + 32) else c)"

definition toLowerCase :: "string \<Rightarrow> string" where
  "toLowerCase s = map toLowerChar s"

section \<open>Errors\<close>

text \<open>
  The error classes the source throws, with their messages. \<open>TypeError\<close> is what the
  language raises when a value that is not a function is called; \<open>AssertionError\<close> is
  what \<open>assert\<close> raises; \<open>UserError\<close> stands for an error value that comes from outside
  (a handler, the body stream, the transport).
\<close>

datatype error =
    InvalidArgumentError string
  | NotSupportedError string
  | TypeError string
  | AssertionError string
  | Error string
  | UserError string

fun isInvalidArgument :: "error \<Rightarrow> bool" where
  "isInvalidArgument (InvalidArgumentError _) = True"
| "isInvalidArgument _ = False"


section \<open>Bindings of the module that the class uses\<close>

text \<open>
  The class refers to names that its file does not define. Those that
  \<open>lib/core/util.js\<close> exports are the functions of that file. The others are taken as
  parameters: the header-name table of \<open>constants.js\<close>, the regular expression
  \<open>invalidPathRegex\<close> (as its \<open>test\<close>), the diagnostics channels (as their
  \<open>hasSubscribers\<close> flags, by channel name) and \<open>stringify\<close> of
  \<open>node:querystring\<close>.
\<close>

record env =
  headerNameLowerCasedRecord :: "string \<Rightarrow> string option"
  invalidPathRegex :: "string \<Rightarrow> bool"
  hasSubscribers :: "string \<Rightarrow> bool"
  stringify :: "jsval \<Rightarrow> string"

definition recordLookup :: "env \<Rightarrow> string \<Rightarrow> string option" where
  \<comment> \<open>\<open>headerNameLowerCasedRecord[k]\<close> when it is truthy\<close>
  "recordLookup E k =
     (case headerNameLowerCasedRecord E k of
        None \<Rightarrow> None
      | Some v \<Rightarrow> if v = [] then None else Some v)"

definition objectPrototypeProperties :: "string list" where
  "objectPrototypeProperties =
     [''constructor'', ''hasOwnProperty'', ''isPrototypeOf'', ''propertyIsEnumerable'',
      ''toLocaleString'', ''toString'', ''valueOf'', ''__defineGetter__'',
      ''__defineSetter__'', ''__lookupGetter__'', ''__lookupSetter__'', ''__proto__'']"

definition normalizedMethodRecords :: "string \<Rightarrow> bool" where
  \<comment> \<open>\<open>normalizedMethodRecords[m]\<close> is truthy: an own key of the object literal, or a
      property it inherits from \<open>Object.prototype\<close>\<close>
  "normalizedMethodRecords m =
     (m \<in> set [''DELETE'', ''GET'', ''HEAD'', ''OPTIONS'', ''POST'', ''PUT'', ''PATCH'', ''patch'']
      \<or> m \<in> set objectPrototypeProperties)"

definition startsWith :: "string \<Rightarrow> string \<Rightarrow> bool" where
  "startsWith s p = (take (length p) s = p)"

definition serializePathWithQuery :: "env \<Rightarrow> string \<Rightarrow> jsval \<Rightarrow> error + string" where
  \<comment> \<open>the function of \<open>lib/core/util.js\<close>\<close>
  \<open>serializePathWithQuery E url queryParams =
     (if typeof queryParams \<noteq> ''object'' then
        Inl (InvalidArgumentError ''Query parameters must be an object.'')
      else if CHR ''?'' \<in> set url \<or> CHR ''#'' \<in> set url then
        Inl (Error ''Query params cannot be passed when URL already contains "?".'')
      else (let stringified = stringify E queryParams in
            Inr (if stringified \<noteq> [] then url @ ''?'' @ stringified else url)))\<close>

section \<open>The request\<close>

text \<open>
  A body as the caller passes it: a plain value, a stream (with the flag
  \<open>_readableState && _readableState.autoDestroy\<close>), a buffer or typed-array view (with
  its \<open>length\<close>), a form-data-like object, another iterable object, a blob-like object.
  The body a request holds is \<open>null\<close>, \<open>Buffer.from\<close> of the given body, or the
  given body itself.
\<close>

datatype body_in =
    BodyValue jsval
  | BodyStream bool
  | BodyBuffer nat
  | BodyFormData
  | BodyIterable
  | BodyBlob

datatype body =
    NullBody
  | BufferFrom body_in
  | Kept body_in

text \<open>
  A handler maps a method name to the method, if it has one; a method takes its arguments
  and returns a value or throws. A function passed as an argument (the abort capability,
  \<open>resume\<close>, the socket) is known by a number. A handler method and the abort
  capability are taken not to call back into the request while they run.
\<close>

datatype arg = Val jsval | Fn nat | Err error

datatype outcome = Return jsval | Throw error

type_synonym handler = "string \<Rightarrow> (arg list \<Rightarrow> outcome) option"

text \<open>What a lifecycle call does outside the request, in order.\<close>

datatype effect =
    HandlerCall string "arg list"
  | AbortCall nat error
  | Publish string

fun isAbortCall :: "effect \<Rightarrow> bool" where
  "isAbortCall (AbortCall _ _) = True"
| "isAbortCall _ = False"

text \<open>
  The fields of a \<open>Request\<close>. The private fields \<open>#headers\<close>, \<open>#handler\<close>,
  \<open>#abort\<close> and \<open>#error\<close> are \<open>priv_headers\<close>, \<open>priv_handler\<close>,
  \<open>priv_abort\<close> and \<open>priv_error\<close>. \<open>#headers\<close> is a \<open>Map\<close>: a list of
  entries in insertion order, whose keys are compared by value (an array used as a key is
  the same key as another array with the same elements, which a \<open>Map\<close> keeps apart).
  \<open>errorHandler\<close> and \<open>endHandler\<close> say whether the
  listener is set (and attached to the body stream) or \<open>null\<close>. An error value is an
  object, hence truthy. The field \<open>method\<close> is \<open>req_method\<close>.
\<close>

record request =
  headersTimeout :: jsval
  bodyTimeout :: jsval
  req_method :: jsval
  body :: body
  completed :: bool
  aborted :: bool
  upgrade :: jsval
  path :: jsval
  origin :: jsval
  idempotent :: jsval
  blocking :: jsval
  reset :: jsval
  host :: jsval
  contentLength :: "int option"
  contentType :: jsval
  priv_headers :: "(jsval \<times> jsval) list"
  priv_handler :: handler
  priv_abort :: "nat option"
  priv_error :: "error option"
  errorHandler :: bool
  endHandler :: bool

record options =
  opt_path :: jsval
  opt_method :: jsval
  opt_upgrade :: jsval
  opt_headersTimeout :: jsval
  opt_bodyTimeout :: jsval
  opt_reset :: jsval
  opt_expectContinue :: jsval
  opt_throwOnError :: jsval
  opt_body :: body_in
  opt_query :: jsval
  opt_headers :: jsval
  opt_idempotent :: jsval
  opt_blocking :: jsval

subsection \<open>Validation of the options\<close>

definition checkTimeoutValidity :: "jsval \<Rightarrow> string \<Rightarrow> error + unit" where
  "checkTimeoutValidity v name =
     (if \<not> nullish v \<and> (case v of Num neg n \<Rightarrow> neg \<and> n \<noteq> 0 | _ \<Rightarrow> True)
      then Inl (InvalidArgumentError (''Invalid '' @ name @ ''.''))
      else Inr ())"

definition checkBooleanValidation :: "jsval \<Rightarrow> string \<Rightarrow> error + unit" where
  "checkBooleanValidation v name =
     (if \<not> nullish v \<and> typeof v \<noteq> ''boolean''
      then Inl (InvalidArgumentError (''Invalid '' @ name @ ''.''))
      else Inr ())"

definition checkUndefined :: "jsval \<Rightarrow> string \<Rightarrow> error + unit" where
  "checkUndefined v name =
     (if \<not> nullish v then Inl (InvalidArgumentError (''Invalid '' @ name @ ''.'')) else Inr ())"

definition andThen :: "error + 'a \<Rightarrow> ('a \<Rightarrow> error + 'b) \<Rightarrow> error + 'b" where
  \<comment> \<open>sequencing: a throw ends the sequence\<close>
  "andThen m f = (case m of Inl e \<Rightarrow> Inl e | Inr x \<Rightarrow> f x)"

definition validateInputs :: "env \<Rightarrow> options \<Rightarrow> error + unit" where
  "validateInputs E opts =
     (case opt_path opts of
        Str p \<Rightarrow>
          if \<not> startsWith p ''/'' \<and> \<not> startsWith p ''http://'' \<and> \<not> startsWith p ''https://''
             \<and> opt_method opts \<noteq> Str ''CONNECT''
          then Inl (InvalidArgumentError ''Path must be an absolute URL or start with a slash.'')
          else if invalidPathRegex E p then Inl (InvalidArgumentError ''Invalid request path.'')
          else if (case opt_method opts of
                     Str m \<Rightarrow> \<not> normalizedMethodRecords m \<and> \<not> isValidHTTPToken m
                   | _ \<Rightarrow> True)
          then Inl (InvalidArgumentError ''Invalid request method.'')
          else if truthy (opt_upgrade opts) \<and> typeof (opt_upgrade opts) \<noteq> ''string''
          then Inl (InvalidArgumentError ''Upgrade must be a string.'')
          else
            andThen (checkTimeoutValidity (opt_headersTimeout opts) ''headersTimeout'') (\<lambda>_.
            andThen (checkTimeoutValidity (opt_bodyTimeout opts) ''bodyTimeout'') (\<lambda>_.
            if \<not> nullish (opt_reset opts) \<and> typeof (opt_reset opts) \<noteq> ''boolean''
            then Inl (InvalidArgumentError ''Invalid reset.'')
            else
              andThen (checkBooleanValidation (opt_expectContinue opts) ''expectContinue'') (\<lambda>_.
              checkUndefined (opt_throwOnError opts) ''throwOnError'')))
      | _ \<Rightarrow> Inl (InvalidArgumentError ''Path must be a string.''))"

subsection \<open>The body\<close>

definition setupStream :: "bool \<Rightarrow> request \<Rightarrow> request" where
  \<comment> \<open>the \<open>end\<close> listener is set unless the stream destroys itself; the \<open>error\<close>
      listener always\<close>
  "setupStream autoDestroy r =
     (let r1 = (if \<not> autoDestroy then r\<lparr>endHandler := True\<rparr> else r)
      in r1\<lparr>errorHandler := True\<rparr>)"

definition cleanupStreamListeners :: "request \<Rightarrow> request" where
  "cleanupStreamListeners r =
     (let r1 = (if errorHandler r then r\<lparr>errorHandler := False\<rparr> else r)
      in (if endHandler r1 then r1\<lparr>endHandler := False\<rparr> else r1))"

definition processBody :: "body_in \<Rightarrow> request \<Rightarrow> error + body \<times> request" where
  \<comment> \<open>the value returned, and the request (to which a stream's listeners are added)\<close>
  "processBody b r =
     (case b of
        BodyStream autoDestroy \<Rightarrow> Inr (Kept b, setupStream autoDestroy r)
      | BodyBuffer len \<Rightarrow> Inr (if len \<noteq> 0 then BufferFrom b else NullBody, r)
      | BodyValue (Str s) \<Rightarrow> Inr (if length s \<noteq> 0 then BufferFrom b else NullBody, r)
      | BodyFormData \<Rightarrow> Inr (Kept b, r)
      | BodyIterable \<Rightarrow> Inr (Kept b, r)
      | BodyValue (Arr xs) \<Rightarrow> Inr (Kept b, r)
      | BodyBlob \<Rightarrow> Inr (Kept b, r)
      | BodyValue _ \<Rightarrow>
          Inl (InvalidArgumentError
            ''Body must be a valid type (string, Buffer, Readable stream, iterable, or async iterable).''))"

definition bodyTruthy :: "body_in \<Rightarrow> bool" where
  "bodyTruthy b = (case b of BodyValue v \<Rightarrow> truthy v | _ \<Rightarrow> True)"

subsection \<open>The headers\<close>

fun mapSet :: "(jsval \<times> jsval) list \<Rightarrow> jsval \<Rightarrow> jsval \<Rightarrow> (jsval \<times> jsval) list" where
  \<comment> \<open>\<open>Map.prototype.set\<close>: an existing key keeps its place\<close>
  "mapSet [] k v = [(k, v)]"
| "mapSet ((k', v') # m) k v = (if k' = k then (k, v) # m else (k', v') # mapSet m k v)"

definition isArray :: "jsval \<Rightarrow> bool" where
  "isArray v = (case v of Arr _ \<Rightarrow> True | _ \<Rightarrow> False)"

definition validString :: "jsval \<Rightarrow> bool" where
  \<comment> \<open>\<open>typeof v === 'string' && isValidHeaderValue(v)\<close>\<close>
  "validString v = (case v of Str s \<Rightarrow> isValidHeaderValue s | _ \<Rightarrow> False)"

definition arrayElement :: "jsval \<Rightarrow> jsval" where
  \<comment> \<open>the function mapped over an array value by \<open>addHeader\<close>\<close>
  "arrayElement v = (if validString v then v else (if v = Null then Str [] else Str (toString v)))"

definition assignHeader :: "string \<Rightarrow> jsval \<Rightarrow> jsval \<Rightarrow> request \<Rightarrow> error + request" where
  "assignHeader headerName val originalKey r =
     (if headerName = ''host'' then
        (if host r = Null \<and> typeof val = ''string'' then Inr (r\<lparr>host := val\<rparr>) else Inr r)
      else if headerName = ''content-length'' then
        (if contentLength r = None then
           (case parseInt10 (toString val) of
              Finite n \<Rightarrow> Inr (r\<lparr>contentLength := Some n\<rparr>)
            | _ \<Rightarrow> Inl (InvalidArgumentError ''Invalid content-length header.''))
         else Inr r)
      else if headerName = ''content-type'' then
        (if contentType r = Null then
           Inr (r\<lparr>contentType := val, priv_headers := mapSet (priv_headers r) originalKey val\<rparr>)
         else Inr r)
      else if headerName = ''transfer-encoding'' \<or> headerName = ''keep-alive''
              \<or> headerName = ''upgrade'' then
        Inl (InvalidArgumentError (''Invalid '' @ headerName @ '' header.''))
      else if headerName = ''connection'' then
        (let connValue = (case val of Str s \<Rightarrow> Some (toLowerCase s) | _ \<Rightarrow> None) in
         if connValue \<noteq> Some ''close'' \<and> connValue \<noteq> Some ''keep-alive'' then
           Inl (InvalidArgumentError ''Invalid connection header'')
         else if connValue = Some ''close'' then Inr (r\<lparr>reset := Bool True\<rparr>)
         else Inr r)
      else if headerName = ''expect'' then
        Inl (NotSupportedError ''Expect header not supported.'')
      else Inr (r\<lparr>priv_headers := mapSet (priv_headers r) originalKey val\<rparr>))"

definition canonicalName :: "env \<Rightarrow> jsval \<Rightarrow> error + string" where
  \<comment> \<open>\<open>headerNameLowerCasedRecord[key] || key.toLowerCase()\<close>: the property key of a
      value is its string conversion; only a string has \<open>toLowerCase\<close>\<close>
  "canonicalName E key =
     (case recordLookup E (toString key) of
        Some n \<Rightarrow> Inr n
      | None \<Rightarrow>
          (case key of
             Str k \<Rightarrow> Inr (toLowerCase k)
           | _ \<Rightarrow> Inl (TypeError ''key.toLowerCase is not a function'')))"

definition addHeader :: "env \<Rightarrow> jsval \<Rightarrow> jsval \<Rightarrow> request \<Rightarrow> error + request" where
  "addHeader E key val r =
     (if val = Undefined then Inr r
      else andThen (canonicalName E key) (\<lambda>headerName.
        if recordLookup E headerName = None \<and> \<not> isValidHTTPToken headerName then
          Inl (InvalidArgumentError ''Invalid header key.'')
        else if isArray val then
          assignHeader headerName
            (case val of Arr vs \<Rightarrow> Arr (map arrayElement vs) | _ \<Rightarrow> val) key r
        else if typeof val = ''string'' \<and> \<not> validString val then
          Inl (InvalidArgumentError (''Invalid '' @ toString key @ '' header.''))
        else
          assignHeader headerName (if val = Null then Str [] else Str (toString val)) key r))"

fun addHeaderPairs :: "env \<Rightarrow> jsval list \<Rightarrow> request \<Rightarrow> error + request" where
  \<comment> \<open>the loop over an array of alternating names and values\<close>
  "addHeaderPairs E [] r = Inr r"
| "addHeaderPairs E [k] r = addHeader E k Undefined r"
| "addHeaderPairs E (k # v # rest) r = andThen (addHeader E k v r) (addHeaderPairs E rest)"

fun addHeaderEntries :: "env \<Rightarrow> (string \<times> jsval) list \<Rightarrow> request \<Rightarrow> error + request" where
  \<comment> \<open>the loop over \<open>Object.entries(headers)\<close>\<close>
  "addHeaderEntries E [] r = Inr r"
| "addHeaderEntries E ((k, v) # rest) r =
     andThen (addHeader E (Str k) v r) (addHeaderEntries E rest)"

definition processHeaders :: "env \<Rightarrow> jsval \<Rightarrow> request \<Rightarrow> error + request" where
  "processHeaders E hs r =
     (case hs of
        Arr xs \<Rightarrow>
          if length xs mod 2 \<noteq> 0 then Inl (InvalidArgumentError ''Headers array must be even.'')
          else addHeaderPairs E xs r
      | Obj es \<Rightarrow> addHeaderEntries E es r
      | _ \<Rightarrow>
          if \<not> nullish hs then Inl (InvalidArgumentError ''Headers must be an object or an array.'')
          else Inr r)"

subsection \<open>The constructor\<close>

text \<open>
  The class body defines the methods \<open>validateInputs\<close>, \<open>checkTimeoutValidity\<close>,
  \<open>checkBooleanValidation\<close>, \<open>checkUndefined\<close>, \<open>processBody\<close>,
  \<open>setupStream\<close>, \<open>cleanupStreamListeners\<close>, \<open>processHeaders\<close>,
  \<open>addHeader\<close>, \<open>assignHeader\<close>, the nine \<open>on...\<close> methods,
  \<open>invokeHandlerMethod\<close> and \<open>onFinally\<close>, and it extends no other class. It
  calls three more names on \<open>this\<close>: \<open>this.serializePathWithQuery\<close>,
  \<open>this.assertRequestHandler\<close> and \<open>this.abort\<close>. None of them is a method or a
  field the class assigns (the abort capability is kept in the private field
  \<open>#abort\<close>, which is another name), so each evaluates to \<open>undefined\<close>, and the call
  raises a \<open>TypeError\<close>.
\<close>

definition notAFunction :: "string \<Rightarrow> error" where
  "notAFunction name = TypeError (''this.'' @ name @ '' is not a function'')"

definition this_serializePathWithQuery :: "jsval \<Rightarrow> jsval \<Rightarrow> error + jsval" where
  "this_serializePathWithQuery p q = Inl (notAFunction ''serializePathWithQuery'')"

definition this_assertRequestHandler :: "handler \<Rightarrow> jsval \<Rightarrow> jsval \<Rightarrow> error + unit" where
  "this_assertRequestHandler h m u = Inl (notAFunction ''assertRequestHandler'')"

definition this_abort :: "error \<Rightarrow> outcome" where
  "this_abort err = Throw (notAFunction ''abort'')"

definition blank :: request where
  \<comment> \<open>the object before the constructor assigns anything\<close>
  "blank = \<lparr>headersTimeout = Undefined, bodyTimeout = Undefined, req_method = Undefined,
     body = NullBody, completed = False, aborted = False, upgrade = Undefined,
     path = Undefined, origin = Undefined, idempotent = Undefined, blocking = Undefined,
     reset = Undefined, host = Undefined, contentLength = None, contentType = Undefined,
     priv_headers = [], priv_handler = (\<lambda>_. None), priv_abort = None, priv_error = None,
     errorHandler = False, endHandler = False\<rparr>"

definition initFields :: "env \<Rightarrow> jsval \<Rightarrow> options \<Rightarrow> error + request" where
  \<comment> \<open>the constructor up to and including \<open>this.processHeaders(options.headers)\<close>\<close>
  "initFields E orig opts =
     andThen (validateInputs E opts) (\<lambda>_.
       let r0 = blank\<lparr>headersTimeout := opt_headersTimeout opts,
                      bodyTimeout := opt_bodyTimeout opts,
                      req_method := opt_method opts\<rparr>
       in andThen (if bodyTruthy (opt_body opts) then processBody (opt_body opts) r0
                   else Inr (NullBody, r0)) (\<lambda>(b, r1).
         let r2 = r1\<lparr>body := b, completed := False, aborted := False,
                      upgrade := (if truthy (opt_upgrade opts) then opt_upgrade opts else Null)\<rparr>
         in andThen (if truthy (opt_query opts)
                     then this_serializePathWithQuery (opt_path opts) (opt_query opts)
                     else Inr (opt_path opts)) (\<lambda>p.
           let r3 = r2\<lparr>path := p, origin := orig,
                        idempotent := nullishOr (opt_idempotent opts)
                          (Bool (req_method r2 = Str ''HEAD'' \<or> req_method r2 = Str ''GET'')),
                        blocking := nullishOr (opt_blocking opts) (Bool (req_method r2 \<noteq> Str ''HEAD'')),
                        reset := nullishOr (opt_reset opts) Null,
                        host := Null, contentLength := None, contentType := Null,
                        priv_headers := []\<rparr>
           in processHeaders E (opt_headers opts) r3)))"

definition Request :: "env \<Rightarrow> jsval \<Rightarrow> options \<Rightarrow> handler \<Rightarrow> error + request \<times> effect list" where
  "Request E orig opts h =
     andThen (initFields E orig opts) (\<lambda>r.
     andThen (this_assertRequestHandler h (opt_method opts) (opt_upgrade opts)) (\<lambda>_.
       Inr (r\<lparr>priv_handler := h\<rparr>,
            if hasSubscribers E ''create'' then [Publish ''create''] else [])))"

subsection \<open>The lifecycle\<close>

text \<open>
  A lifecycle method gives the request after the call, what it did outside the request,
  and its completion: a returned value or a thrown error. A throw does not undo the
  assignments made before it.
\<close>

type_synonym result = "request \<times> effect list \<times> outcome"

definition stateOf :: "result \<Rightarrow> request" where
  "stateOf x = fst x"

definition effectsOf :: "result \<Rightarrow> effect list" where
  "effectsOf x = fst (snd x)"

definition outcomeOf :: "result \<Rightarrow> outcome" where
  "outcomeOf x = snd (snd x)"

definition publish :: "env \<Rightarrow> string \<Rightarrow> effect list" where
  "publish E channel = (if hasSubscribers E channel then [Publish channel] else [])"

definition invokeHandlerMethod :: "request \<Rightarrow> string \<Rightarrow> arg list \<Rightarrow> result" where
  "invokeHandlerMethod r m args =
     (case priv_handler r m of
        None \<Rightarrow> (r, [], Return Undefined)
      | Some f \<Rightarrow>
          (case f args of
             Return v \<Rightarrow> (r, [HandlerCall m args], Return v)
           | Throw err \<Rightarrow>
               (case this_abort err of
                  Throw e \<Rightarrow> (r, [HandlerCall m args], Throw e)
                | Return _ \<Rightarrow> (r, [HandlerCall m args], Return Undefined))))"

definition onFinally :: "request \<Rightarrow> request" where
  "onFinally r = cleanupStreamListeners r"

definition before :: "effect list \<Rightarrow> result \<Rightarrow> result" where
  \<comment> \<open>effects that precede those of the rest of the method\<close>
  "before es x = (stateOf x, es @ effectsOf x, outcomeOf x)"

definition onBodySent :: "arg \<Rightarrow> request \<Rightarrow> result" where
  "onBodySent chunk r = invokeHandlerMethod r ''onBodySent'' [chunk]"

definition onRequestSent :: "env \<Rightarrow> request \<Rightarrow> result" where
  "onRequestSent E r = before (publish E ''bodySent'') (invokeHandlerMethod r ''onRequestSent'' [])"

definition onConnect :: "nat \<Rightarrow> request \<Rightarrow> result" where
  "onConnect abort r =
     (if aborted r then (r, [], Throw (AssertionError ''!this.aborted''))
      else if completed r then (r, [], Throw (AssertionError ''!this.completed''))
      else (case priv_error r of
              Some e \<Rightarrow> (r, [AbortCall abort e], Return Undefined)
            | None \<Rightarrow> invokeHandlerMethod (r\<lparr>priv_abort := Some abort\<rparr>) ''onConnect'' [Fn abort]))"

definition onResponseStarted :: "request \<Rightarrow> result" where
  "onResponseStarted r = invokeHandlerMethod r ''onResponseStarted'' []"

definition onHeaders :: "env \<Rightarrow> arg \<Rightarrow> arg \<Rightarrow> arg \<Rightarrow> arg \<Rightarrow> request \<Rightarrow> result" where
  "onHeaders E statusCode hdrs resume statusText r =
     (if aborted r then (r, [], Throw (AssertionError ''!this.aborted''))
      else if completed r then (r, [], Throw (AssertionError ''!this.completed''))
      else before (publish E ''headers'')
             (invokeHandlerMethod r ''onHeaders'' [statusCode, hdrs, resume, statusText]))"

definition onData :: "arg \<Rightarrow> request \<Rightarrow> result" where
  "onData chunk r =
     (if aborted r then (r, [], Throw (AssertionError ''!this.aborted''))
      else if completed r then (r, [], Throw (AssertionError ''!this.completed''))
      else invokeHandlerMethod r ''onData'' [chunk])"

definition onUpgrade :: "arg \<Rightarrow> arg \<Rightarrow> arg \<Rightarrow> request \<Rightarrow> result" where
  "onUpgrade statusCode hdrs socket r =
     (if aborted r then (r, [], Throw (AssertionError ''!this.aborted''))
      else if completed r then (r, [], Throw (AssertionError ''!this.completed''))
      else invokeHandlerMethod r ''onUpgrade'' [statusCode, hdrs, socket])"

definition onComplete :: "env \<Rightarrow> arg \<Rightarrow> request \<Rightarrow> result" where
  "onComplete E trailers r =
     (let r1 = onFinally r in
      if aborted r1 then (r1, [], Throw (AssertionError ''!this.aborted''))
      else if completed r1 then (r1, [], Throw (AssertionError ''!this.completed''))
      else before (publish E ''trailers'')
             (invokeHandlerMethod (r1\<lparr>completed := True\<rparr>) ''onComplete'' [trailers]))"

definition onError :: "env \<Rightarrow> error \<Rightarrow> request \<Rightarrow> result" where
  "onError E err r =
     (let r1 = onFinally r in
      before (publish E ''error'')
        (if aborted r1 then (r1, [], Return Undefined)
         else invokeHandlerMethod (r1\<lparr>aborted := True\<rparr>) ''onError'' [Err err]))"

text \<open>
  The events of a body stream reach the request through the listeners of
  \<open>setupStream\<close>, when they are set: \<open>error\<close> calls the abort capability if there
  is one and records the error otherwise; \<open>end\<close> removes the listeners.
\<close>

definition bodyError :: "error \<Rightarrow> request \<Rightarrow> result" where
  "bodyError err r =
     (if errorHandler r then
        (case priv_abort r of
           Some abort \<Rightarrow> (r, [AbortCall abort err], Return Undefined)
         | None \<Rightarrow> (r\<lparr>priv_error := Some err\<rparr>, [], Return Undefined))
      else (r, [], Return Undefined))"

definition bodyEnd :: "request \<Rightarrow> result" where
  "bodyEnd r = (if endHandler r then (cleanupStreamListeners r, [], Return Undefined)
                else (r, [], Return Undefined))"

text \<open>A sequence of calls on one request, made by the transport and the body stream.\<close>

datatype call =
    OnBodySent arg
  | OnRequestSent
  | OnConnect nat
  | OnResponseStarted
  | OnHeaders arg arg arg arg
  | OnData arg
  | OnUpgrade arg arg arg
  | OnComplete arg
  | OnError error
  | BodyError error
  | BodyEnd

fun step :: "env \<Rightarrow> call \<Rightarrow> request \<Rightarrow> result" where
  "step E (OnBodySent c) r = onBodySent c r"
| "step E OnRequestSent r = onRequestSent E r"
| "step E (OnConnect a) r = onConnect a r"
| "step E OnResponseStarted r = onResponseStarted r"
| "step E (OnHeaders a b c d) r = onHeaders E a b c d r"
| "step E (OnData c) r = onData c r"
| "step E (OnUpgrade a b c) r = onUpgrade a b c r"
| "step E (OnComplete t) r = onComplete E t r"
| "step E (OnError e) r = onError E e r"
| "step E (BodyError e) r = bodyError e r"
| "step E BodyEnd r = bodyEnd r"

fun run :: "env \<Rightarrow> call list \<Rightarrow> request \<Rightarrow> request \<times> effect list" where
  \<comment> \<open>the caller goes on after a throw: the request keeps its state\<close>
  "run E [] r = (r, [])"
| "run E (c # cs) r =
     (let x = step E c r; y = run E cs (stateOf x) in (fst y, effectsOf x @ snd y))"

fun guarded :: "call \<Rightarrow> bool" where
  \<comment> \<open>the calls that assert \<open>!aborted\<close> and \<open>!completed\<close> before they forward\<close>
  "guarded (OnHeaders _ _ _ _) = True"
| "guarded (OnData _) = True"
| "guarded (OnUpgrade _ _ _) = True"
| "guarded (OnComplete _) = True"
| "guarded _ = False"

section \<open>A concrete environment\<close>

text \<open>
  Modelled from the spec: the static case-normalization table of header names
  (\<open>constants.js\<close> is not among the sources). The spec says that it maps a common
  header name to its lowercase form; the names here are those the header table dispatches
  on, each in its usual capitalisation and in lowercase. \<open>invalidPathRegex\<close> is
  modelled from the spec's example of an invalid path (a path with a space); no channel
  has a subscriber; \<open>stringify\<close> is given on an object with one string entry, whose
  name and value need no escaping, and is empty elsewhere.
\<close>

definition sampleNames :: "(string \<times> string) list" where
  "sampleNames =
     [(''Host'', ''host''), (''host'', ''host''),
      (''Content-Length'', ''content-length''), (''content-length'', ''content-length''),
      (''Content-Type'', ''content-type''), (''content-type'', ''content-type''),
      (''Transfer-Encoding'', ''transfer-encoding''), (''transfer-encoding'', ''transfer-encoding''),
      (''Keep-Alive'', ''keep-alive''), (''keep-alive'', ''keep-alive''),
      (''Upgrade'', ''upgrade''), (''upgrade'', ''upgrade''),
      (''Connection'', ''connection''), (''connection'', ''connection''),
      (''Expect'', ''expect''), (''expect'', ''expect'')]"

fun sampleStringify :: "jsval \<Rightarrow> string" where
  "sampleStringify (Obj [(k, Str v)]) = k @ ''='' @ v"
| "sampleStringify _ = []"

definition sampleEnv :: env where
  "sampleEnv = \<lparr>headerNameLowerCasedRecord = map_of sampleNames,
                 invalidPathRegex = (\<lambda>p. CHR '' '' \<in> set p),
                 hasSubscribers = (\<lambda>_. False),
                 stringify = sampleStringify\<rparr>"

definition sampleOptions :: options where
  \<comment> \<open>\<open>{ path: '/x', method: 'GET' }\<close>\<close>
  "sampleOptions = \<lparr>opt_path = Str ''/x'', opt_method = Str ''GET'', opt_upgrade = Undefined,
     opt_headersTimeout = Undefined, opt_bodyTimeout = Undefined, opt_reset = Undefined,
     opt_expectContinue = Undefined, opt_throwOnError = Undefined,
     opt_body = BodyValue Undefined, opt_query = Undefined, opt_headers = Undefined,
     opt_idempotent = Undefined, opt_blocking = Undefined\<rparr>"

definition sampleRequest :: request where
  \<comment> \<open>the fields the constructor assigns for \<open>sampleOptions\<close>, with no handler method\<close>
  "sampleRequest = blank\<lparr>req_method := Str ''GET'', path := Str ''/x'', upgrade := Null,
     idempotent := Bool True, blocking := Bool True, reset := Null, host := Null,
     contentType := Null\<rparr>"

definition throwingHandler :: handler where
  \<comment> \<open>a handler whose \<open>onData\<close> throws and whose other required methods return\<close>
  "throwingHandler m =
     (if m = ''onData'' then Some (\<lambda>_. Throw (UserError ''boom''))
      else if m \<in> set [''onConnect'', ''onError'', ''onHeaders'', ''onComplete'']
      then Some (\<lambda>_. Return Undefined)
      else None)"

definition quietHandler :: handler where
  \<comment> \<open>a handler whose required methods all return\<close>
  "quietHandler m =
     (if m \<in> set [''onConnect'', ''onError'', ''onHeaders'', ''onData'', ''onComplete'']
      then Some (\<lambda>_. Return Undefined)
      else None)"

definition streamRequest :: request where
  \<comment> \<open>a request whose body is a stream, before \<open>onConnect\<close>\<close>
  "streamRequest = sampleRequest\<lparr>body := Kept (BodyStream True), priv_handler := quietHandler,
     errorHandler := True\<rparr>"

definition completedRequest :: request where
  "completedRequest = sampleRequest\<lparr>priv_handler := quietHandler, completed := True\<rparr>"

definition abortedRequest :: request where
  "abortedRequest = sampleRequest\<lparr>priv_handler := quietHandler, aborted := True\<rparr>"

section \<open>Vocabulary of the properties\<close>

definition failsWith :: "(error \<Rightarrow> bool) \<Rightarrow> error + 'a \<Rightarrow> bool" where
  \<comment> \<open>the call throws an error of the given kind\<close>
  "failsWith P x = (case x of Inl e \<Rightarrow> P e | Inr _ \<Rightarrow> False)"

definition passesValidation :: "jsval \<Rightarrow> bool" where
  \<comment> \<open>the value is not rejected by \<open>addHeader\<close> itself: it is an array, or not a string,
      or a valid string\<close>
  "passesValidation val = (isArray val \<or> typeof val \<noteq> ''string'' \<or> validString val)"

definition storedValue :: "jsval \<Rightarrow> jsval" where
  \<comment> \<open>what \<open>addHeader\<close> hands to \<open>assignHeader\<close> for a value that it does not reject\<close>
  "storedValue val =
     (case val of Arr vs \<Rightarrow> Arr (map arrayElement vs) | Null \<Rightarrow> Str [] | _ \<Rightarrow> Str (toString val))"



definition isAssertion :: "outcome \<Rightarrow> bool" where
  "isAssertion x = (case x of Throw (AssertionError _) \<Rightarrow> True | _ \<Rightarrow> False)"

fun isOnError :: "call \<Rightarrow> bool" where
  "isOnError (OnError _) = True"
| "isOnError _ = False"

fun isOnErrorCall :: "effect \<Rightarrow> bool" where
  \<comment> \<open>a call of the handler's \<open>onError\<close>\<close>
  "isOnErrorCall (HandlerCall m _) = (m = ''onError'')"
| "isOnErrorCall _ = False"

definition settled :: "request \<Rightarrow> bool" where
  \<comment> \<open>aborted, with the listeners removed from the body stream\<close>
  "settled r = (aborted r \<and> \<not> errorHandler r \<and> \<not> endHandler r)"

section \<open>Evaluation lemmas\<close>

lemmas char_defs = code_def isDigit_def headerValueChar_def isValidHeaderValue_def
  isTokenCharCode_def isValidHTTPToken_def toLowerChar_def toLowerCase_def isWhiteSpace_def

lemmas parse_defs = parseInt10_def toDouble_def decimalValue_def digitValue_def Let_def

lemmas sample_defs = sampleEnv_def sampleNames_def sampleOptions_def sampleRequest_def blank_def
  recordLookup_def

lemmas validate_defs = validateInputs_def startsWith_def normalizedMethodRecords_def truthy_def
  nullish_def checkTimeoutValidity_def checkBooleanValidation_def checkUndefined_def andThen_def

lemmas header_defs = addHeader_def canonicalName_def isArray_def arrayElement_def
  validString_def assignHeader_def typeof_def andThen_def

lemmas lifecycle_defs = onBodySent_def onRequestSent_def onConnect_def onResponseStarted_def
  onHeaders_def onData_def onUpgrade_def onComplete_def onError_def bodyError_def bodyEnd_def
  onFinally_def cleanupStreamListeners_def before_def stateOf_def effectsOf_def outcomeOf_def

section \<open>The Range header\<close>

lemma parseRangeHeader_absent:
  "parseRangeHeader None =
     Some \<lparr>range_start = Finite 0, range_end = None, range_size = None\<rparr> \<and>
   parseRangeHeader (Some []) =
     Some \<lparr>range_start = Finite 0, range_end = None, range_size = None\<rparr>"
  by (simp add: parseRangeHeader_def)

lemma rangeMatch_groups_nonempty:
  "rangeMatch s = Some (g1, g2, g3) \<Longrightarrow> g1 \<noteq> [] \<and> g2 \<noteq> []"
  by (auto simp: rangeMatch_def Let_def split: option.splits if_splits)

text \<open>
  A header that is not empty and parses always has an end: the second group of the
  regular expression is \<open>(\\d+)\<close>, not optional, so the branch of \<open>parseRangeHeader\<close>
  that gives \<open>end: null\<close> for a missing second group is never taken.
\<close>

lemma parseRangeHeader_end_present:
  "s \<noteq> [] \<Longrightarrow> parseRangeHeader (Some s) = Some r \<Longrightarrow> range_end r \<noteq> None"
  by (auto simp: parseRangeHeader_def split: option.splits if_splits
      dest: rangeMatch_groups_nonempty)

text \<open>
  C9. The claim says that a header with the end omitted, such as \<open>bytes=0-/100\<close> or
  \<open>bytes=0-\<close>, parses with \<open>end = null\<close>. The code returns \<open>null\<close>, the parse
  failure, for both; it parses a header with start and end, the size being optional after
  a slash that is not.
\<close>

theorem parseRangeHeader_end_omitted:
  "parseRangeHeader (Some ''bytes=0-/100'') = None \<and>
   parseRangeHeader (Some ''bytes=0-'') = None \<and>
   parseRangeHeader (Some ''bytes=0-99/100'') =
     Some \<lparr>range_start = Finite 0, range_end = Some (Finite 99),
           range_size = Some (Finite 100)\<rparr> \<and>
   parseRangeHeader (Some ''bytes=0-99/'') =
     Some \<lparr>range_start = Finite 0, range_end = Some (Finite 99), range_size = None\<rparr>"
  by (simp add: parseRangeHeader_def rangeMatch_def char_defs parse_defs)

section \<open>Header values\<close>

text \<open>
  C2. The claim says that a value for which \<open>isValidHeaderValue\<close> is false makes
  \<open>addHeader\<close> fail, also as an element of an array. In the code the scalar
  \<open>"a\\r\\nb"\<close> fails, and the array \<open>["a\\r\\nb"]\<close> is stored in the header table
  as it is: an element that is not a valid string is converted to a string, which for a
  string changes nothing.
\<close>

theorem addHeader_array_element_unchecked:
  "\<not> isValidHeaderValue [CHR ''a'', CHR 0x0D, CHR 0x0A, CHR ''b''] \<and>
   addHeader sampleEnv (Str ''foo'') (Arr [Str [CHR ''a'', CHR 0x0D, CHR 0x0A, CHR ''b'']])
       sampleRequest =
     Inr (sampleRequest\<lparr>priv_headers :=
            [(Str ''foo'', Arr [Str [CHR ''a'', CHR 0x0D, CHR 0x0A, CHR ''b'']])]\<rparr>) \<and>
   addHeader sampleEnv (Str ''foo'') (Str [CHR ''a'', CHR 0x0D, CHR 0x0A, CHR ''b''])
       sampleRequest =
     Inl (InvalidArgumentError ''Invalid foo header.'')"
  by (simp add: header_defs sample_defs char_defs)

section \<open>A handler that throws\<close>

text \<open>
  Whatever the request and the method: when the handler's method throws, the call ends
  with the \<open>TypeError\<close> of \<open>this.abort\<close>, and the abort capability is not called.
\<close>

lemma invokeHandlerMethod_throw:
  "priv_handler r m = Some f \<Longrightarrow> f args = Throw err \<Longrightarrow>
   invokeHandlerMethod r m args = (r, [HandlerCall m args], Throw (notAFunction ''abort''))"
  by (simp add: invokeHandlerMethod_def this_abort_def)

lemma invokeHandlerMethod_no_abort:
  "filter isAbortCall (effectsOf (invokeHandlerMethod r m args)) = []"
  by (simp add: invokeHandlerMethod_def this_abort_def effectsOf_def
      split: option.splits outcome.splits)

text \<open>
  C3. The claim says that an error thrown by a handler method is caught and turned into
  an abort of the request with that error, and does not reach the caller. In the code, on
  a connected request whose abort capability is number 7 and whose handler's
  \<open>onData\<close> throws, \<open>onData\<close> calls the handler, calls no abort capability, and
  throws a \<open>TypeError\<close> to its caller.
\<close>

theorem handler_throw_not_aborted:
  "effectsOf (onData (Val (Str ''chunk''))
      (sampleRequest\<lparr>priv_handler := throwingHandler, priv_abort := Some 7\<rparr>)) =
     [HandlerCall ''onData'' [Val (Str ''chunk'')]] \<and>
   outcomeOf (onData (Val (Str ''chunk''))
      (sampleRequest\<lparr>priv_handler := throwingHandler, priv_abort := Some 7\<rparr>)) =
     Throw (TypeError ''this.abort is not a function'')"
  by (simp add: onData_def invokeHandlerMethod_def throwingHandler_def this_abort_def
      notAFunction_def effectsOf_def outcomeOf_def sampleRequest_def blank_def)

section \<open>The path and the query\<close>

text \<open>
  The function of \<open>util.js\<close> does what the claim describes: it fails when the path has
  a \<open>?\<close> or a \<open>#\<close>, and otherwise appends the query when it is not empty.
\<close>

lemma serializePathWithQuery_object:
  \<open>typeof q = ''object'' \<Longrightarrow>
   serializePathWithQuery E url q =
     (if CHR ''?'' \<in> set url \<or> CHR ''#'' \<in> set url
      then Inl (Error ''Query params cannot be passed when URL already contains "?".'')
      else Inr (if stringify E q = [] then url else url @ ''?'' @ stringify E q))\<close>
  by (simp add: serializePathWithQuery_def Let_def)

text \<open>
  With a query, the constructor throws before it processes the headers. Without one it
  throws as well, later: after the headers it calls \<open>this.assertRequestHandler\<close>.
\<close>

lemma initFields_query_fails:
  "truthy (opt_query opts) \<Longrightarrow> isl (initFields E orig opts)"
  by (auto simp: initFields_def andThen_def this_serializePathWithQuery_def Let_def
      split: sum.splits)

lemma Request_never_returns: "isl (Request E orig opts h)"
  by (auto simp: Request_def andThen_def this_assertRequestHandler_def split: sum.splits)

text \<open>
  C10. The claim says that, with a query object and a path without \<open>?\<close> and \<open>#\<close>,
  the request's path is the given path followed by \<open>?\<close> and the stringified query. In
  the code, the constructor with path \<open>/x\<close> and query \<open>{a: '1'}\<close> throws a
  \<open>TypeError\<close>, where the function of \<open>util.js\<close> gives \<open>/x?a=1\<close>.
\<close>

theorem constructor_query_TypeError:
  "initFields sampleEnv Null (sampleOptions\<lparr>opt_query := Obj [(''a'', Str ''1'')]\<rparr>) =
     Inl (TypeError ''this.serializePathWithQuery is not a function'') \<and>
   Request sampleEnv Null (sampleOptions\<lparr>opt_query := Obj [(''a'', Str ''1'')]\<rparr>) quietHandler =
     Inl (TypeError ''this.serializePathWithQuery is not a function'') \<and>
   serializePathWithQuery sampleEnv ''/x'' (Obj [(''a'', Str ''1'')]) = Inr ''/x?a=1''"
  by (simp add: initFields_def Request_def validate_defs sample_defs bodyTruthy_def
      this_serializePathWithQuery_def notAFunction_def serializePathWithQuery_def typeof_def)

section \<open>Header values, in general\<close>

text \<open>A string in an array is kept as it is, valid or not.\<close>

lemma arrayElement_string: "arrayElement (Str s) = Str s"
  by (simp add: arrayElement_def validString_def)

text \<open>A scalar string that is not a valid header value is rejected, whatever the name.\<close>

lemma addHeader_scalar_invalid:
  "\<not> isValidHeaderValue s \<Longrightarrow> canonicalName E key = Inr n \<Longrightarrow>
   failsWith isInvalidArgument (addHeader E key (Str s) r)"
  by (simp add: addHeader_def andThen_def isArray_def typeof_def validString_def failsWith_def)

text \<open>
  A value that \<open>addHeader\<close> does not reject reaches \<open>assignHeader\<close>, under the
  canonical name; an array of strings reaches it unchanged, whatever the strings.
\<close>

lemma addHeader_passes:
  assumes "canonicalName E key = Inr n"
    and "recordLookup E n \<noteq> None \<or> isValidHTTPToken n"
    and "val \<noteq> Undefined" and "passesValidation val"
  shows "addHeader E key val r = assignHeader n (storedValue val) key r"
  using assms
  by (cases val) (auto simp: addHeader_def andThen_def isArray_def typeof_def validString_def
      passesValidation_def storedValue_def)

lemma storedValue_strings: "storedValue (Arr (map Str ss)) = Arr (map Str ss)"
  by (simp add: storedValue_def arrayElement_string)

lemma passes_array: "passesValidation (Arr vs)"
  by (simp add: passesValidation_def isArray_def)

lemma addHeader_array_strings:
  assumes "canonicalName E key = Inr n"
    and "recordLookup E n \<noteq> None \<or> isValidHTTPToken n"
  shows "addHeader E key (Arr (map Str ss)) r = assignHeader n (Arr (map Str ss)) key r"
  using addHeader_passes [OF assms _ passes_array, of "map Str ss" r]
  by (simp add: storedValue_strings)

section \<open>The numbers parseInt gives\<close>


text \<open>Below \<open>2^53\<close> the double is the number itself.\<close>

lemma toDouble_small: "n < 2 ^ 53 \<Longrightarrow> toDouble n = Some n"
  by (simp add: toDouble_def)








section \<open>The content-length header\<close>




section \<open>The headers a caller must not set\<close>













section \<open>The fields of a new request\<close>

text \<open>
  C8, as the code has it. With the options \<open>{path: "/x", method: "GET"}\<close>, no body and
  no headers, and a path that \<open>invalidPathRegex\<close> does not match, the options pass the
  validation and the constructor assigns \<open>idempotent = true\<close>,
  \<open>blocking = true\<close> (the default is \<open>method !== 'HEAD'\<close>) and \<open>body = null\<close>,
  and the header table is empty.
\<close>

theorem initFields_sample:
  assumes "\<not> invalidPathRegex E ''/x''"
  shows "initFields E orig sampleOptions = Inr (sampleRequest\<lparr>origin := orig\<rparr>) \<and>
         idempotent (sampleRequest\<lparr>origin := orig\<rparr>) = Bool True \<and>
         blocking (sampleRequest\<lparr>origin := orig\<rparr>) = Bool True \<and>
         body (sampleRequest\<lparr>origin := orig\<rparr>) = NullBody \<and>
         priv_headers (sampleRequest\<lparr>origin := orig\<rparr>) = []"
  using assms
  by (simp add: initFields_def validate_defs sampleOptions_def sampleRequest_def blank_def
      bodyTruthy_def nullishOr_def processHeaders_def)

theorem initFields_sample_witness:
  "\<not> invalidPathRegex sampleEnv ''/x'' \<and>
   initFields sampleEnv (Str ''http://localhost'') sampleOptions =
     Inr (sampleRequest\<lparr>origin := Str ''http://localhost''\<rparr>) \<and>
   idempotent (sampleRequest\<lparr>origin := Str ''http://localhost''\<rparr>) = Bool True \<and>
   body (sampleRequest\<lparr>origin := Str ''http://localhost''\<rparr>) = NullBody"
proof -
  have h: "\<not> invalidPathRegex sampleEnv ''/x''" by (simp add: sampleEnv_def)
  show ?thesis using h initFields_sample [OF h, of "Str ''http://localhost''"] by simp
qed

text \<open>C8, as stated, fails: for these options \<open>blocking\<close> is not \<open>false\<close>.\<close>

theorem blocking_counterexample:
  "initFields sampleEnv Null sampleOptions = Inr (sampleRequest\<lparr>origin := Null\<rparr>) \<and>
   blocking (sampleRequest\<lparr>origin := Null\<rparr>) \<noteq> Bool False"
  by (simp add: initFields_def validate_defs sample_defs bodyTruthy_def nullishOr_def
      processHeaders_def)

section \<open>The lifecycle flags\<close>

lemma invoke_state [simp]: "fst (invokeHandlerMethod r m args) = r"
  by (simp add: invokeHandlerMethod_def this_abort_def split: option.splits outcome.splits)

lemma invoke_effects:
  "fst (snd (invokeHandlerMethod r m args)) =
     (if priv_handler r m = None then [] else [HandlerCall m args])"
  by (simp add: invokeHandlerMethod_def this_abort_def split: option.splits outcome.splits)

lemma step_completed: "completed r \<Longrightarrow> completed (stateOf (step E c r))"
  by (cases c) (simp_all add: lifecycle_defs Let_def split: option.splits)

lemma step_aborted: "aborted r \<Longrightarrow> aborted (stateOf (step E c r))"
  by (cases c) (simp_all add: lifecycle_defs Let_def split: option.splits)

lemma run_completed: "completed r \<Longrightarrow> completed (fst (run E cs r))"
  by (induction cs arbitrary: r) (simp_all add: Let_def step_completed)

lemma run_aborted: "aborted r \<Longrightarrow> aborted (fst (run E cs r))"
  by (induction cs arbitrary: r) (simp_all add: Let_def step_aborted)

lemma guarded_not_forwarded:
  "completed r \<or> aborted r \<Longrightarrow> guarded c \<Longrightarrow>
   effectsOf (step E c r) = [] \<and>
   (outcomeOf (step E c r) = Throw (AssertionError ''!this.aborted'') \<or>
    outcomeOf (step E c r) = Throw (AssertionError ''!this.completed''))"
  by (cases c) (auto simp add: lifecycle_defs Let_def)

lemma both_flags_origin:
  "completed (stateOf (step E c r)) \<Longrightarrow> aborted (stateOf (step E c r)) \<Longrightarrow>
   completed r \<and> (aborted r \<or> isOnError c)"
  by (cases c) (auto simp add: lifecycle_defs Let_def split: option.splits if_splits)

lemma onError_sets_aborted: "aborted (stateOf (onError E e r))"
  by (simp add: lifecycle_defs Let_def)

lemma completed_on_aborted: "aborted r \<Longrightarrow> completed (stateOf (step E c r)) = completed r"
  by (cases c) (auto simp add: lifecycle_defs Let_def split: option.splits if_splits)

text \<open>
  C1, as the code has it. For every request and every sequence of calls, a flag that is
  true stays true. Once either flag is true, \<open>onHeaders\<close>, \<open>onData\<close>,
  \<open>onUpgrade\<close> and \<open>onComplete\<close> do nothing outside the request and end with an
  assertion error. A call leaves both flags true only if the request was completed and
  either was aborted too or the call is \<open>onError\<close>; no call completes an aborted
  request; \<open>onError\<close> on a completed request leaves it completed and aborted; and
  \<open>onError\<close> leaves any request aborted.
\<close>

theorem lifecycle_flags:
  "(completed r \<longrightarrow> completed (fst (run E cs r))) \<and>
   (aborted r \<longrightarrow> aborted (fst (run E cs r))) \<and>
   (completed r \<or> aborted r \<longrightarrow> guarded c \<longrightarrow>
      effectsOf (step E c r) = [] \<and> isAssertion (outcomeOf (step E c r))) \<and>
   (completed (stateOf (step E d r)) \<and> aborted (stateOf (step E d r)) \<longrightarrow>
      completed r \<and> (aborted r \<or> isOnError d)) \<and>
   (aborted r \<longrightarrow> completed (stateOf (step E d r)) = completed r) \<and>
   (completed r \<longrightarrow> completed (stateOf (onError E e r)) \<and> aborted (stateOf (onError E e r))) \<and>
   aborted (stateOf (onError E e r))"
proof -
  have "isAssertion (outcomeOf (step E c r))" if "completed r \<or> aborted r" and "guarded c"
    using guarded_not_forwarded [OF that, of E] by (auto simp: isAssertion_def)
  moreover have "completed (stateOf (onError E e r))" if "completed r"
    using step_completed [OF that, of E "OnError e"] by simp
  ultimately show ?thesis
    using run_completed [of r E cs] run_aborted [of r E cs] guarded_not_forwarded [of r c E]
      both_flags_origin [of E d r] completed_on_aborted [of r E d] onError_sets_aborted [of E e r]
    by blast
qed

theorem lifecycle_flags_witness:
  "completed completedRequest \<and>
   completed (fst (run sampleEnv [OnData (Val (Str ''chunk'')), BodyEnd] completedRequest)) \<and>
   guarded (OnData (Val (Str ''chunk''))) \<and>
   effectsOf (step sampleEnv (OnData (Val (Str ''chunk''))) completedRequest) = [] \<and>
   isAssertion (outcomeOf (step sampleEnv (OnData (Val (Str ''chunk''))) completedRequest)) \<and>
   aborted (stateOf (onError sampleEnv (UserError ''late'') completedRequest)) \<and>
   aborted abortedRequest \<and>
   aborted (fst (run sampleEnv [OnComplete (Val Null)] abortedRequest)) \<and>
   \<not> completed (stateOf (step sampleEnv (OnComplete (Val Null)) abortedRequest)) \<and>
   effectsOf (step sampleEnv (OnComplete (Val Null)) abortedRequest) = []"
proof -
  have c: "completed completedRequest" "\<not> aborted completedRequest"
    by (simp_all add: completedRequest_def sample_defs)
  have a: "aborted abortedRequest" "\<not> completed abortedRequest"
    by (simp_all add: abortedRequest_def sample_defs)
  show ?thesis
    using lifecycle_flags [of completedRequest sampleEnv
        "[OnData (Val (Str ''chunk'')), BodyEnd]" "OnData (Val (Str ''chunk''))"
        "OnError (UserError ''late'')" "UserError ''late''"]
      lifecycle_flags [of abortedRequest sampleEnv "[OnComplete (Val Null)]"
        "OnComplete (Val Null)" "OnComplete (Val Null)" "UserError ''late''"] c a
    by (simp del: run.simps step.simps)
qed

text \<open>
  C1, as stated, fails: on a new request, \<open>onComplete\<close> followed by \<open>onError\<close>
  forwards both calls to the handler and leaves \<open>completed\<close> and \<open>aborted\<close> both
  true.
\<close>

theorem lifecycle_flags_counterexample:
  "completed (stateOf (onComplete sampleEnv (Val Null)
      (sampleRequest\<lparr>priv_handler := quietHandler\<rparr>))) \<and>
   \<not> aborted (stateOf (onComplete sampleEnv (Val Null)
      (sampleRequest\<lparr>priv_handler := quietHandler\<rparr>))) \<and>
   completed (fst (run sampleEnv [OnComplete (Val Null), OnError (UserError ''late'')]
      (sampleRequest\<lparr>priv_handler := quietHandler\<rparr>))) \<and>
   aborted (fst (run sampleEnv [OnComplete (Val Null), OnError (UserError ''late'')]
      (sampleRequest\<lparr>priv_handler := quietHandler\<rparr>))) \<and>
   snd (run sampleEnv [OnComplete (Val Null), OnError (UserError ''late'')]
      (sampleRequest\<lparr>priv_handler := quietHandler\<rparr>)) =
     [HandlerCall ''onComplete'' [Val Null], HandlerCall ''onError'' [Err (UserError ''late'')]]"
  by (simp add: lifecycle_defs Let_def invokeHandlerMethod_def quietHandler_def sample_defs
      publish_def)

section \<open>Calling onError more than once\<close>

lemma onError_settles: "settled (stateOf (onError E e r))"
  by (simp add: lifecycle_defs settled_def Let_def)

lemma step_settled: "settled r \<Longrightarrow> settled (stateOf (step E c r))"
  by (cases c) (auto simp add: lifecycle_defs settled_def Let_def split: option.splits)

lemma run_settled: "settled r \<Longrightarrow> settled (fst (run E cs r))"
  by (induction cs arbitrary: r) (simp_all add: Let_def step_settled)

lemma onError_settled:
  "settled r \<Longrightarrow> onError E e r = (r, publish E ''error'', Return Undefined)"
  by (simp add: lifecycle_defs settled_def Let_def)

lemma filter_invoke:
  "filter isOnErrorCall (fst (snd (invokeHandlerMethod r m args))) =
     (if m = ''onError'' \<and> priv_handler r m \<noteq> None then [HandlerCall m args] else [])"
  by (simp add: invoke_effects)

lemma filter_publish [simp]: "filter isOnErrorCall (publish E ch) = []"
  by (simp add: publish_def)

lemma step_onError_calls_aborted:
  "aborted r \<Longrightarrow> filter isOnErrorCall (effectsOf (step E c r)) = []"
  by (cases c) (auto simp add: lifecycle_defs Let_def filter_invoke split: option.splits)

lemma step_onError_calls:
  "length (filter isOnErrorCall (effectsOf (step E c r))) \<le> 1 \<and>
   (filter isOnErrorCall (effectsOf (step E c r)) \<noteq> [] \<longrightarrow> aborted (stateOf (step E c r)))"
  by (cases c) (auto simp add: lifecycle_defs Let_def filter_invoke split: option.splits)

lemma run_onError_calls_aborted:
  "aborted r \<Longrightarrow> filter isOnErrorCall (snd (run E cs r)) = []"
  by (induction cs arbitrary: r) (simp_all add: Let_def step_aborted step_onError_calls_aborted)

text \<open>In any sequence of calls the handler's \<open>onError\<close> is called at most once.\<close>

lemma run_onError_calls:
  "length (filter isOnErrorCall (snd (run E cs r))) \<le> 1"
proof (induction cs arbitrary: r)
  case Nil
  show ?case by simp
next
  case (Cons c cs)
  show ?case
  proof (cases "filter isOnErrorCall (effectsOf (step E c r)) = []")
    case True
    then show ?thesis using Cons.IH [of "stateOf (step E c r)"] by (simp add: Let_def)
  next
    case False
    then have "aborted (stateOf (step E c r))" using step_onError_calls by blast
    then have "filter isOnErrorCall (snd (run E cs (stateOf (step E c r)))) = []"
      by (rule run_onError_calls_aborted)
    then show ?thesis using step_onError_calls [of E c r] by (simp add: Let_def)
  qed
qed

text \<open>
  C5. After \<open>onError\<close> the request is aborted; on a request that was not aborted the call
  publishes the error (when the channel has a subscriber) and calls the handler's
  \<open>onError\<close> with the error. Every later \<open>onError\<close>, whatever calls come in between,
  returns \<open>undefined\<close>, leaves the request as it is and does nothing outside it but
  publish the error; and in any sequence of calls on any request the handler's
  \<open>onError\<close> is called at most once.
\<close>

theorem onError_twice:
  "aborted (stateOf (onError E e1 r)) \<and>
   (\<not> aborted r \<longrightarrow>
      effectsOf (onError E e1 r) =
        publish E ''error'' @
        (if priv_handler r ''onError'' = None then [] else [HandlerCall ''onError'' [Err e1]])) \<and>
   onError E e2 (fst (run E cs (stateOf (onError E e1 r)))) =
     (fst (run E cs (stateOf (onError E e1 r))), publish E ''error'', Return Undefined) \<and>
   length (filter isOnErrorCall (snd (run E ds r))) \<le> 1"
proof -
  have a: "settled (stateOf (onError E e1 r))" by (rule onError_settles)
  then have "settled (fst (run E cs (stateOf (onError E e1 r))))" by (rule run_settled)
  then have b: "onError E e2 (fst (run E cs (stateOf (onError E e1 r)))) =
     (fst (run E cs (stateOf (onError E e1 r))), publish E ''error'', Return Undefined)"
    by (rule onError_settled)
  have c: "\<not> aborted r \<longrightarrow>
      effectsOf (onError E e1 r) =
        publish E ''error'' @
        (if priv_handler r ''onError'' = None then [] else [HandlerCall ''onError'' [Err e1]])"
    by (simp add: lifecycle_defs Let_def invoke_effects)
  from a b c run_onError_calls show ?thesis by (simp add: settled_def)
qed

theorem onError_twice_witness:
  "\<not> aborted (sampleRequest\<lparr>priv_handler := quietHandler\<rparr>) \<and>
   effectsOf (onError sampleEnv (UserError ''first'')
      (sampleRequest\<lparr>priv_handler := quietHandler\<rparr>)) =
     [HandlerCall ''onError'' [Err (UserError ''first'')]] \<and>
   effectsOf (onError sampleEnv (UserError ''second'')
      (stateOf (onError sampleEnv (UserError ''first'')
         (sampleRequest\<lparr>priv_handler := quietHandler\<rparr>)))) = [] \<and>
   stateOf (onError sampleEnv (UserError ''second'')
      (stateOf (onError sampleEnv (UserError ''first'')
         (sampleRequest\<lparr>priv_handler := quietHandler\<rparr>)))) =
     stateOf (onError sampleEnv (UserError ''first'')
        (sampleRequest\<lparr>priv_handler := quietHandler\<rparr>))"
proof -
  have n: "\<not> aborted (sampleRequest\<lparr>priv_handler := quietHandler\<rparr>)"
    "priv_handler (sampleRequest\<lparr>priv_handler := quietHandler\<rparr>) ''onError'' \<noteq> None"
    by (simp_all add: sample_defs quietHandler_def)
  have p: "publish sampleEnv ''error'' = []" by (simp add: publish_def sampleEnv_def)
  show ?thesis
    using onError_twice [of sampleEnv "UserError ''first''"
        "sampleRequest\<lparr>priv_handler := quietHandler\<rparr>" "UserError ''second''" "[]" "[]"] n p
    by (simp add: stateOf_def effectsOf_def)
qed

section \<open>An error of the body before the connection\<close>

text \<open>
  C7. On a request that is neither aborted nor completed (what \<open>onConnect\<close> asserts):
  when an error is recorded, \<open>onConnect(abort)\<close> calls \<open>abort\<close> with that error,
  calls no handler method and returns; when none is, it stores \<open>abort\<close> and forwards
  \<open>onConnect\<close> to the handler, if the handler has the method. An error of the body
  stream that comes while the listener is set and no abort capability is stored is
  recorded without any call, and the next \<open>onConnect(abort)\<close> calls \<open>abort\<close> with
  it.
\<close>

theorem onConnect_deferred_error:
  assumes "\<not> aborted r" and "\<not> completed r"
  shows "(priv_error r = Some e \<longrightarrow> onConnect a r = (r, [AbortCall a e], Return Undefined)) \<and>
         (priv_error r = None \<longrightarrow>
            stateOf (onConnect a r) = r\<lparr>priv_abort := Some a\<rparr> \<and>
            effectsOf (onConnect a r) =
              (if priv_handler r ''onConnect'' = None then []
               else [HandlerCall ''onConnect'' [Fn a]])) \<and>
         (errorHandler r \<and> priv_abort r = None \<longrightarrow>
            effectsOf (bodyError e r) = [] \<and>
            onConnect a (stateOf (bodyError e r)) =
              (stateOf (bodyError e r), [AbortCall a e], Return Undefined))"
  using assms
  by (simp add: onConnect_def bodyError_def stateOf_def effectsOf_def invoke_effects)

theorem onConnect_deferred_error_witness:
  "onConnect 7 (streamRequest\<lparr>priv_error := Some (UserError ''read failed'')\<rparr>) =
     (streamRequest\<lparr>priv_error := Some (UserError ''read failed'')\<rparr>,
      [AbortCall 7 (UserError ''read failed'')], Return Undefined) \<and>
   stateOf (bodyError (UserError ''read failed'') streamRequest) =
     streamRequest\<lparr>priv_error := Some (UserError ''read failed'')\<rparr> \<and>
   onConnect 7 (stateOf (bodyError (UserError ''read failed'') streamRequest)) =
     (stateOf (bodyError (UserError ''read failed'') streamRequest),
      [AbortCall 7 (UserError ''read failed'')], Return Undefined) \<and>
   stateOf (onConnect 7 streamRequest) = streamRequest\<lparr>priv_abort := Some 7\<rparr> \<and>
   effectsOf (onConnect 7 streamRequest) = [HandlerCall ''onConnect'' [Fn 7]]"
proof -
  have f: "\<not> aborted streamRequest" "\<not> completed streamRequest"
    "priv_error streamRequest = None" "errorHandler streamRequest"
    "priv_abort streamRequest = None" "priv_handler streamRequest ''onConnect'' \<noteq> None"
    by (simp_all add: streamRequest_def sample_defs quietHandler_def)
  have g: "\<not> aborted (streamRequest\<lparr>priv_error := Some (UserError ''read failed'')\<rparr>)"
    "\<not> completed (streamRequest\<lparr>priv_error := Some (UserError ''read failed'')\<rparr>)"
    using f by simp_all
  have b: "stateOf (bodyError (UserError ''read failed'') streamRequest) =
     streamRequest\<lparr>priv_error := Some (UserError ''read failed'')\<rparr>"
    using f by (simp add: bodyError_def stateOf_def)
  show ?thesis
    using onConnect_deferred_error [OF f(1,2), of "UserError ''read failed''" 7]
      onConnect_deferred_error [OF g, of "UserError ''read failed''" 7] f b
    by simp
qed

end
